theory Spec2Isabelle
  imports Main "HOL-Library.Word" "HOL-Library.Signed_Division"
begin

section \<open>Go values used by package carousel\<close>

text \<open>
  Go's \<open>int\<close> is taken at its 64-bit width: \<open>+\<close>, \<open>-\<close> and \<open>*\<close> wrap around,
  comparisons are signed (\<open><s\<close>, \<open>\<le>s\<close>), and \<open>sint\<close> reads the mathematical value.
  The layout arithmetic of \<open>View\<close> runs on the caller-supplied width, so it is
  modelled on this type.

  The cursor and slice lengths are modelled as \<open>int\<close>: a slice has fewer than
  \<open>2^63\<close> elements, and the only arithmetic on the cursor is a decrement guarded
  by \<open>cursor > 0\<close>, an increment guarded by \<open>cursor < n-1\<close> and \<open>n - 1\<close> with
  \<open>n > 0\<close>, none of which can leave the 64-bit range.
\<close>

type_synonym go_int = "64 word"

text \<open>Go's integer division \<open>x / y\<close> for \<open>y \<noteq> 0\<close>: the quotient truncated towards zero.\<close>

definition quo :: "go_int \<Rightarrow> go_int \<Rightarrow> go_int" where
  "quo x y = word_of_int (sint x sdiv sint y)"

text \<open>A run-time panic of the Go program.\<close>

datatype panic = IndexOutOfRange

text \<open>\<open>xs[i]\<close> on a slice: panics outside \<open>0 \<le> i < len(xs)\<close>.\<close>

definition slice_index :: "'a list \<Rightarrow> int \<Rightarrow> panic + 'a" where
  "slice_index xs i =
     (if 0 \<le> i \<and> i < int (length xs) then Inr (xs ! nat i) else Inl IndexOutOfRange)"

text \<open>Strings are byte sequences, as in Go; non-ASCII literals are written as UTF-8 bytes.\<close>

definition newline :: char where
  "newline = CHR 0x0A"

definition arrow_right :: string where
  "arrow_right = [CHR 0xE2, CHR 0x86, CHR 0x92]"

definition arrow_left :: string where
  "arrow_left = [CHR 0xE2, CHR 0x86, CHR 0x90]"

definition arrow_down :: string where
  "arrow_down = [CHR 0xE2, CHR 0x86, CHR 0x93]"

definition dot_filled :: string where
  "dot_filled = [CHR 0xE2, CHR 0x97, CHR 0x8F]"

definition dot_hollow :: string where
  "dot_hollow = [CHR 0xE2, CHR 0x97, CHR 0x8B]"

definition bullet :: string where
  "bullet = [CHR 0xE2, CHR 0x80, CHR 0xA2]"

text \<open>\<open>strings.Join(elems, sep)\<close>.\<close>

fun strings_Join :: "string list \<Rightarrow> string \<Rightarrow> string" where
  "strings_Join [] sep = []"
| "strings_Join [x] sep = x"
| "strings_Join (x # y # ys) sep = x @ sep @ strings_Join (y # ys) sep"

text \<open>
  \<open>strings.Split(s, sep)\<close> for a one-byte separator, the only use in the package
  (\<open>"\n"\<close>): the pieces between the separators; the empty string gives one empty piece.
\<close>

fun strings_Split :: "string \<Rightarrow> char \<Rightarrow> string list" where
  "strings_Split [] c = [] # []"
| "strings_Split (x # xs) c =
     (if x = c then [] # strings_Split xs c
      else (case strings_Split xs c of
              [] \<Rightarrow> [x] # []
            | l # ls \<Rightarrow> (x # l) # ls))"

text \<open>\<open>fmt.Sprintf("%d", i)\<close>: the decimal digits of an integer.\<close>

fun decimal :: "nat \<Rightarrow> string" where
  "decimal n =
     (if n < 10 then [char_of (48 + n)]
      else decimal (n div 10) @ [char_of (48 + n mod 10)])"

definition Sprintf_d :: "int \<Rightarrow> string" where
  "Sprintf_d i = (if i < 0 then CHR ''-'' # decimal (nat (- i)) else decimal (nat i))"

section \<open>External rendering capabilities\<close>

text \<open>
  The styling and measuring primitives come from the libraries lipgloss and
  x/ansi, which are not part of the package. A style is the record of the
  options the package sets on it; what rendering does with it is a parameter of
  every function that draws.
\<close>

type_synonym Color = string

datatype Border = NoBorder | RoundedBorder

record Style =
  border :: Border
  borderForeground :: "Color option"
  foreground :: "Color option"
  bold :: bool
  styleWidth :: "go_int option"
  styleHeight :: "go_int option"
  padding :: "(go_int \<times> go_int) option"

definition NewStyle :: Style where
  "NewStyle = \<lparr>border = NoBorder, borderForeground = None, foreground = None,
     bold = False, styleWidth = None, styleHeight = None, padding = None\<rparr>"

record Lib =
  Style_Render :: "Style \<Rightarrow> string \<Rightarrow> string"
  JoinHorizontal_Top :: "string list \<Rightarrow> string"
  StringWidth :: "string \<Rightarrow> go_int"
  Truncate :: "string \<Rightarrow> go_int \<Rightarrow> string \<Rightarrow> string"
  TruncateLeft :: "string \<Rightarrow> go_int \<Rightarrow> string \<Rightarrow> string"

section \<open>Data model\<close>

text \<open>Layout constants.\<close>

definition minPeekW :: go_int where
  "minPeekW = 8"

definition carouselGap :: go_int where
  "carouselGap = 2"

definition maxCenterW :: go_int where
  "maxCenterW = 44"

text \<open>
  \<open>ItemDelegate\<close>: the caller's rendering and marking of an item. The
  configuration documents the delegate as required, so it is always present.
\<close>

record 'a ItemDelegate =
  Render :: "'a \<Rightarrow> go_int \<Rightarrow> string"
  IsMarked :: "'a \<Rightarrow> bool"

record 'a ItemSelectedMsg =
  Index :: int
  Item :: 'a

text \<open>
  \<open>tea.Cmd\<close> is a function producing a message, or nil. The only command the
  package builds produces an \<open>ItemSelectedMsg\<close>.
\<close>

type_synonym 'a Cmd = "(unit \<Rightarrow> 'a ItemSelectedMsg) option"

text \<open>
  A slice argument that may be nil is an option; a stored slice is a list.
  \<open>slice_of\<close> is the guard \<open>if items == nil { items = []any{} }\<close>.
\<close>

definition slice_of :: "'a list option \<Rightarrow> 'a list" where
  "slice_of its = (case its of None \<Rightarrow> [] | Some xs \<Rightarrow> xs)"

record 'a Config =
  Items :: "'a list option"
  Delegate :: "'a ItemDelegate"
  Title :: string
  ActiveColor :: Color
  MarkedColor :: Color
  DefaultColor :: Color
  ExtraFooter :: string

record 'a Model =
  items :: "'a list"
  delegate :: "'a ItemDelegate"
  title :: string
  activeColor :: Color
  markedColor :: Color
  defaultColor :: Color
  extraFooter :: string
  cursor :: int
  width :: go_int
  height :: go_int

section \<open>Construction, accessors and mutators\<close>

definition New :: "'a Config \<Rightarrow> 'a Model" where
  "New cfg =
     \<lparr>items = slice_of (Items cfg),
      delegate = Delegate cfg,
      title = Title cfg,
      activeColor = (if ActiveColor cfg = [] then ''#fb6820'' else ActiveColor cfg),
      markedColor = (if MarkedColor cfg = [] then ''28'' else MarkedColor cfg),
      defaultColor = (if DefaultColor cfg = [] then ''240'' else DefaultColor cfg),
      extraFooter = ExtraFooter cfg,
      cursor = 0,
      width = 0,
      height = 0\<rparr>"

definition SetCursor :: "'a Model \<Rightarrow> int \<Rightarrow> 'a Model" where
  "SetCursor m idx =
     (let idx = (if idx < 0 then 0 else idx);
          n = int (length (items m));
          idx = (if 0 < n \<and> n \<le> idx then n - 1 else idx)
      in m\<lparr>cursor := idx\<rparr>)"

definition SetSize :: "'a Model \<Rightarrow> go_int \<Rightarrow> go_int \<Rightarrow> 'a Model" where
  "SetSize m w h = m\<lparr>width := w, height := h\<rparr>"

definition SetItems :: "'a Model \<Rightarrow> 'a list option \<Rightarrow> 'a Model" where
  "SetItems m its =
     (let xs = slice_of its;
          m = m\<lparr>items := xs\<rparr>;
          n = int (length xs)
      in if 0 < n \<and> n \<le> cursor m then m\<lparr>cursor := n - 1\<rparr> else m)"

text \<open>\<open>MarkedCount\<close>: the loop over the items with its counter.\<close>

definition MarkedCount :: "'a Model \<Rightarrow> int" where
  "MarkedCount m =
     fold (\<lambda>item count. if IsMarked (delegate m) item then count + 1 else count) (items m) 0"

section \<open>Update\<close>

text \<open>
  \<open>Update\<close> receives the key message through its \<open>String()\<close> value. The receiver
  is a copy, so the result is the new model and the command.
\<close>

definition Update :: "'a Model \<Rightarrow> string \<Rightarrow> panic + ('a Model \<times> 'a Cmd)" where
  "Update m msg =
     (let n = int (length (items m)) in
      if n = 0 then Inr (m, None)
      else if msg = ''left'' \<or> msg = ''h'' then
        Inr (if 0 < cursor m then m\<lparr>cursor := cursor m - 1\<rparr> else m, None)
      else if msg = ''right'' \<or> msg = ''l'' then
        Inr (if cursor m < n - 1 then m\<lparr>cursor := cursor m + 1\<rparr> else m, None)
      else if msg = ''down'' \<or> msg = ''j'' \<or> msg = ''enter'' \<or> msg = '' '' then
        (let idx = cursor m in
         case slice_index (items m) idx of
           Inl e \<Rightarrow> Inl e
         | Inr item \<Rightarrow> Inr (m, Some (\<lambda>_. \<lparr>Index = idx, Item = item\<rparr>)))
      else Inr (m, None))"

text \<open>Feeding a sequence of keys, as the host's loop does; a panic ends the run.\<close>

fun run :: "'a Model \<Rightarrow> string list \<Rightarrow> panic + 'a Model" where
  "run m [] = Inr m"
| "run m (k # ks) =
     (case Update m k of
        Inl e \<Rightarrow> Inl e
      | Inr (m', c) \<Rightarrow> run m' ks)"

section \<open>View\<close>

subsection \<open>Layout math\<close>

text \<open>
  The block of \<open>View\<close> from \<open>usable := m.width - 6\<close> to the clamp of
  \<open>cardContentH\<close>, one definition for each variable, as functions of \<open>m.width\<close>.
  The constant \<open>2*(minPeekW+carouselGap)\<close> is 20 and \<open>2*carouselGap\<close> is 4.
\<close>

definition usable :: "go_int \<Rightarrow> go_int" where
  "usable w = w - 6"

definition centerW :: "go_int \<Rightarrow> go_int" where
  "centerW w =
     (let c = usable w - 2 * (minPeekW + carouselGap);
          c = (if maxCenterW <s c then maxCenterW else c);
          c = (if c <s 24 then 24 else c)
      in c)"

text \<open>The peek width before its two clamps, and the cap of the first clamp.\<close>

definition peekW_raw :: "go_int \<Rightarrow> go_int" where
  "peekW_raw w = quo (usable w - centerW w - 2 * carouselGap) 2"

definition maxPeek :: "go_int \<Rightarrow> go_int" where
  "maxPeek w = quo (centerW w + 2) 2"

definition peekW :: "go_int \<Rightarrow> go_int" where
  "peekW w =
     (let p = peekW_raw w;
          p = (if maxPeek w <s p then maxPeek w else p);
          p = (if p <s minPeekW then minPeekW else p)
      in p)"

definition cardContentH :: "go_int \<Rightarrow> go_int" where
  "cardContentH w =
     (let totalCardW = centerW w + 2;
          h = quo (totalCardW * 3) 10
      in if h <s 8 then 8 else h)"

subsection \<open>Cards, peeks and footer\<close>

definition renderCard ::
  "Lib \<Rightarrow> 'a Model \<Rightarrow> int \<Rightarrow> go_int \<Rightarrow> go_int \<Rightarrow> bool \<Rightarrow> panic + string" where
  "renderCard L m i cardW cardH active =
     (case slice_index (items m) i of
        Inl e \<Rightarrow> Inl e
      | Inr item \<Rightarrow>
          (let inner = cardW - 2;
               content = Render (delegate m) item inner;
               style =
                 (if active then
                    NewStyle\<lparr>border := RoundedBorder,
                      borderForeground := Some (activeColor m),
                      styleWidth := Some cardW, styleHeight := Some cardH,
                      padding := Some (1, 1)\<rparr>
                  else if IsMarked (delegate m) item then
                    NewStyle\<lparr>border := RoundedBorder,
                      borderForeground := Some (markedColor m),
                      foreground := Some ''242'',
                      styleWidth := Some cardW, styleHeight := Some cardH,
                      padding := Some (1, 1)\<rparr>
                  else
                    NewStyle\<lparr>border := RoundedBorder,
                      borderForeground := Some (defaultColor m),
                      foreground := Some ''242'',
                      styleWidth := Some cardW, styleHeight := Some cardH,
                      padding := Some (1, 1)\<rparr>)
           in Inr (Style_Render L style content)))"

definition renderFooter :: "Lib \<Rightarrow> 'a Model \<Rightarrow> string \<Rightarrow> string" where
  "renderFooter L m navHint =
     (let dimStyle = NewStyle\<lparr>foreground := Some ''240''\<rparr>;
          sep = Style_Render L dimStyle ('' '' @ bullet @ '' '');
          parts = [Style_Render L dimStyle navHint,
                   Style_Render L dimStyle (''Enter/'' @ arrow_down @ '' Select''),
                   Style_Render L dimStyle ''Esc Back''];
          parts = (if extraFooter m \<noteq> [] then parts @ [Style_Render L dimStyle (extraFooter m)]
                   else parts)
      in Style_Render L (NewStyle\<lparr>padding := Some (0, 1)\<rparr>) (strings_Join parts sep))"

definition peekLeft :: "Lib \<Rightarrow> string \<Rightarrow> go_int \<Rightarrow> string" where
  "peekLeft L s n =
     strings_Join (map (\<lambda>line. Truncate L line n []) (strings_Split s newline)) [newline]"

text \<open>The body of the loop of \<open>peekRight\<close>, for one line.\<close>

definition peekRight_line :: "Lib \<Rightarrow> go_int \<Rightarrow> string \<Rightarrow> string" where
  "peekRight_line L n line =
     (let w = StringWidth L line in
      if n <s w then TruncateLeft L line (w - n) [] else line)"

definition peekRight :: "Lib \<Rightarrow> string \<Rightarrow> go_int \<Rightarrow> string" where
  "peekRight L s n =
     strings_Join (map (peekRight_line L n) (strings_Split s newline)) [newline]"

definition ghostCard :: "Lib \<Rightarrow> go_int \<Rightarrow> go_int \<Rightarrow> string" where
  "ghostCard L cardW cardH =
     Style_Render L
       (NewStyle\<lparr>border := RoundedBorder, borderForeground := Some ''235'',
          styleWidth := Some cardW, styleHeight := Some cardH\<rparr>) []"

subsection \<open>Header, navigation hint and assembly\<close>

text \<open>
  The dot indicator and the header are the two blocks of \<open>View\<close> that build them;
  the header holds the count of \<open>MarkedCount\<close>.
\<close>

definition indicator :: "Lib \<Rightarrow> 'a Model \<Rightarrow> string" where
  "indicator L m =
     strings_Join
       (map (\<lambda>i. if int i = cursor m
                  then Style_Render L (NewStyle\<lparr>foreground := Some (activeColor m)\<rparr>) dot_filled
                  else Style_Render L (NewStyle\<lparr>foreground := Some (defaultColor m)\<rparr>) dot_hollow)
            [0 ..< length (items m)])
       '' ''"

definition header :: "Lib \<Rightarrow> 'a Model \<Rightarrow> string" where
  "header L m =
     (let headerStyle = NewStyle\<lparr>foreground := Some ''255'', bold := True\<rparr>;
          helpStyle = NewStyle\<lparr>foreground := Some ''240''\<rparr>
      in Style_Render L headerStyle (title m) @ ''  ''
         @ Style_Render L helpStyle
             (Sprintf_d (MarkedCount m) @ ''/'' @ Sprintf_d (int (length (items m))) @ '' saved'')
         @ [newline] @ indicator L m @ [newline, newline])"

text \<open>The switch on the cursor that chooses the footer's navigation hint: the first matching case wins.\<close>

definition navHint :: "int \<Rightarrow> int \<Rightarrow> string" where
  "navHint cur n =
     (if cur = 0 then arrow_right @ '' Navigate''
      else if cur = n - 1 then arrow_left @ '' Navigate''
      else arrow_left @ arrow_right @ '' Navigate'')"

definition View :: "Lib \<Rightarrow> 'a Model \<Rightarrow> panic + string" where
  "View L m =
     (let n = int (length (items m)) in
      if n = 0 then Inr []
      else
        (let cW = centerW (width m);
             pW = peekW (width m);
             cH = cardContentH (width m);
             cur = cursor m;
             gapBlock = replicate (unat carouselGap) CHR '' ''
         in case renderCard L m cur cW cH True of
              Inl e \<Rightarrow> Inl e
            | Inr centerCard \<Rightarrow>
           (case (if 0 < cur
                  then (case renderCard L m (cur - 1) cW cH False of
                          Inl e \<Rightarrow> Inl e
                        | Inr rendered \<Rightarrow> Inr (peekRight L rendered pW))
                  else Inr (peekRight L (ghostCard L cW cH) pW)) of
              Inl e \<Rightarrow> Inl e
            | Inr leftPeek \<Rightarrow>
           (case (if cur < n - 1
                  then (case renderCard L m (cur + 1) cW cH False of
                          Inl e \<Rightarrow> Inl e
                        | Inr rendered \<Rightarrow> Inr (peekLeft L rendered pW))
                  else Inr (peekLeft L (ghostCard L cW cH) pW)) of
              Inl e \<Rightarrow> Inl e
            | Inr rightPeek \<Rightarrow>
                (let row = JoinHorizontal_Top L
                             [leftPeek, gapBlock, centerCard, gapBlock, rightPeek];
                     footer = renderFooter L m (navHint cur n)
                 in Inr (header L m @ row @ [newline, newline] @ footer))))))"

section \<open>Example values\<close>

text \<open>
  A plain terminal without styling, where every byte is one column, and three
  small carousels over strings. They instantiate the theorems below.
\<close>

definition plain_Lib :: Lib where
  "plain_Lib =
     \<lparr>Style_Render = (\<lambda>st s. s),
      JoinHorizontal_Top = concat,
      StringWidth = (\<lambda>s. word_of_nat (length s)),
      Truncate = (\<lambda>s n tail. take (unat n) s),
      TruncateLeft = (\<lambda>s n prefix. drop (unat n) s)\<rparr>"

definition example_delegate :: "string ItemDelegate" where
  "example_delegate =
     \<lparr>Render = (\<lambda>item innerW. item), IsMarked = (\<lambda>item. item = ''b'')\<rparr>"

definition example_config :: "string list option \<Rightarrow> string Config" where
  "example_config its =
     \<lparr>Items = its, Delegate = example_delegate, Title = ''Pick'',
      ActiveColor = [], MarkedColor = [], DefaultColor = [], ExtraFooter = []\<rparr>"

definition three_items :: "string Model" where
  "three_items = SetSize (New (example_config (Some [''a'', ''b'', ''c'']))) 80 24"

definition one_item :: "string Model" where
  "one_item = SetSize (New (example_config (Some [''a'']))) 80 24"

definition no_items :: "string Model" where
  "no_items = SetSize (New (example_config None)) 80 24"

lemmas example_defs =
  three_items_def one_item_def no_items_def example_config_def example_delegate_def
  New_def SetSize_def slice_of_def

section \<open>Signed 64-bit arithmetic without overflow\<close>

lemma sint_plus_exact:
  fixes a b :: go_int
  assumes "- (2 ^ 63) \<le> sint a + sint b" "sint a + sint b < 2 ^ 63"
  shows "sint (a + b) = sint a + sint b"
  using assms by (simp add: sint_word_ariths signed_take_bit_int_eq_self)

lemma sint_minus_exact:
  fixes a b :: go_int
  assumes "- (2 ^ 63) \<le> sint a - sint b" "sint a - sint b < 2 ^ 63"
  shows "sint (a - b) = sint a - sint b"
  using assms by (simp add: sint_word_ariths signed_take_bit_int_eq_self)

text \<open>Truncation towards zero, written with the floor division of \<open>int\<close>.\<close>

lemma sdiv_2_eq: "(k::int) sdiv 2 = (if 0 \<le> k then k div 2 else - ((- k) div 2))"
  by (simp add: signed_divide_int_def sgn_if)

lemma sint_quo_2: "sint (quo x 2) = sint x sdiv 2"
proof -
  have lo: "- (2 ^ 63) \<le> sint x" and hi: "sint x < 2 ^ 63"
    using sint_ge [of x] sint_lt [of x] by simp_all
  have "- (2 ^ 63) \<le> sint x sdiv 2 \<and> sint x sdiv 2 < 2 ^ 63"
    using lo hi unfolding sdiv_2_eq by (simp split: if_splits) linarith
  then show ?thesis
    by (simp add: quo_def sint_sbintrunc' signed_take_bit_int_eq_self)
qed

section \<open>The layout of View\<close>

lemma centerW_range: "24 \<le> sint (centerW w) \<and> sint (centerW w) \<le> 44"
  by (simp add: centerW_def Let_def maxCenterW_def word_sless_alt not_less)

lemma sint_maxPeek: "sint (maxPeek w) = (sint (centerW w) + 2) div 2"
proof -
  have "sint (centerW w + 2) = sint (centerW w) + 2"
    using centerW_range [of w] by (simp add: sint_plus_exact)
  then show ?thesis
    using centerW_range [of w] by (simp add: maxPeek_def sint_quo_2 sdiv_2_eq)
qed

text \<open>The two clamps of the peek width, in their order: first the cap, then the floor.\<close>

lemma sint_peekW:
  "sint (peekW w) = max 8 (min (sint (maxPeek w)) (sint (peekW_raw w)))"
  by (simp add: peekW_def Let_def minPeekW_def word_sless_alt max_def min_def)

lemma cardContentH_lower: "8 \<le> sint (cardContentH w)"
  by (simp add: cardContentH_def Let_def word_sless_alt not_less)

text \<open>
  Claim C1. For every available width (the model's width, set by \<open>SetSize\<close>), and so
  for every width \<open>\<ge> 0\<close>, the layout computed at the start of \<open>View\<close> has
  \<open>24 \<le> centerW \<le> 44\<close>, \<open>peekW \<ge> 8\<close>, \<open>peekW \<le> (centerW + 2) / 2\<close> and
  \<open>cardContentH \<ge> 8\<close>, all at once. The layout functions are total: no width,
  including one that makes \<open>usable = width - 6\<close> negative, leads to a panic.
\<close>

theorem layout_bounds:
  "24 \<le> sint (centerW w) \<and> sint (centerW w) \<le> 44
   \<and> 8 \<le> sint (peekW w)
   \<and> sint (peekW w) \<le> (sint (centerW w) + 2) div 2
   \<and> 8 \<le> sint (cardContentH w)"
proof -
  have c: "24 \<le> sint (centerW w)" "sint (centerW w) \<le> 44"
    using centerW_range [of w] by simp_all
  have "8 \<le> (sint (centerW w) + 2) div 2"
    using c by linarith
  then have "8 \<le> sint (peekW w)" "sint (peekW w) \<le> (sint (centerW w) + 2) div 2"
    by (simp_all add: sint_peekW sint_maxPeek)
  with c cardContentH_lower [of w] show ?thesis
    by simp
qed

theorem layout_bounds_witness:
  "sint (centerW 200) = 44 \<and> sint (peekW 200) = 23 \<and> sint (cardContentH 200) = 13
   \<and> sint (centerW 10) = 24 \<and> sint (peekW 10) = 8 \<and> sint (cardContentH 10) = 8
   \<and> sint (centerW 0) = 24 \<and> sint (peekW 0) = 8 \<and> sint (cardContentH 0) = 8"
  using layout_bounds [of 200] layout_bounds [of 10] layout_bounds [of 0]
  by (simp add: centerW_def peekW_def peekW_raw_def maxPeek_def cardContentH_def usable_def
        quo_def Let_def maxCenterW_def minPeekW_def carouselGap_def word_sless_alt)

subsection \<open>The peek width before its clamps\<close>

lemma sint_usable: "- (2 ^ 63) + 6 \<le> sint w \<Longrightarrow> sint (usable w) = sint w - 6"
  using sint_lt [of w] by (simp add: usable_def sint_minus_exact)

lemma centerW_small:
  assumes "- (2 ^ 63) + 26 \<le> sint w" "sint w < 50"
  shows "sint (centerW w) = 24"
proof -
  have u: "sint (usable w) = sint w - 6"
    using assms by (simp add: sint_usable)
  have "sint (usable w - 20) = sint w - 26"
    using assms u by (simp add: sint_minus_exact)
  then show ?thesis
    using assms
    by (simp add: centerW_def Let_def minPeekW_def carouselGap_def maxCenterW_def word_sless_alt)
qed

text \<open>From width \<open>-2^63 + 34\<close> on, the dividend of the peek width is computed without wrap-around.\<close>

lemma dividend_exact:
  assumes "- (2 ^ 63) + 34 \<le> sint w"
  shows "sint (usable w - centerW w - 2 * carouselGap) = sint w - 6 - sint (centerW w) - 4"
proof -
  have u: "sint (usable w) = sint w - 6"
    using assms by (simp add: sint_usable)
  have hi: "sint w < 2 ^ 63"
    using sint_lt [of w] by simp
  have c: "24 \<le> sint (centerW w)" "sint (centerW w) \<le> 44"
    using centerW_range [of w] by simp_all
  have lo: "- (2 ^ 63) + 4 \<le> sint w - 6 - sint (centerW w)"
  proof (cases "sint w < 50")
    case True
    with assms have "sint (centerW w) = 24" by (simp add: centerW_small)
    with assms show ?thesis by simp
  next
    case False
    with c show ?thesis by simp
  qed
  have s1: "sint (usable w - centerW w) = sint w - 6 - sint (centerW w)"
    using u c hi lo by (simp add: sint_minus_exact)
  have "sint (usable w - centerW w - 4) = sint w - 6 - sint (centerW w) - 4"
    using s1 c hi lo by (simp add: sint_minus_exact)
  then show ?thesis
    by (simp add: carouselGap_def)
qed

text \<open>
  Claim C9, as stated, fails: at width 1 the dividend
  \<open>usable - centerW - 2 * carouselGap\<close> is \<open>-33\<close>, whose floor half is \<open>-17\<close>, and the
  peek width before the clamps is \<open>-16\<close>: Go's division truncates towards zero.
\<close>

theorem peekW_raw_floor_counterexample:
  "sint (peekW_raw 1) = - 16
   \<and> (sint (usable 1) - sint (centerW 1) - 2 * sint carouselGap) div 2 = - 17
   \<and> sint (peekW_raw 1) \<noteq> (sint (usable 1) - sint (centerW 1) - 2 * sint carouselGap) div 2"
  by (simp add: peekW_raw_def quo_def usable_def centerW_def Let_def
        maxCenterW_def minPeekW_def carouselGap_def word_sless_alt)

text \<open>
  Claim C9, amended. For every available width, the peek width before the clamps is
  the quotient of \<open>d = usable - centerW - 2 * carouselGap\<close> by 2 truncated towards
  zero: the floor \<open>d div 2\<close> when \<open>d \<ge> 0\<close>, and \<open>- ((- d) div 2)\<close> when \<open>d < 0\<close>.
  It is then clamped first to at most \<open>(centerW + 2) / 2\<close> and then to at least
  \<open>minPeekW = 8\<close>. The dividend is the one of 64-bit arithmetic; from width
  \<open>-2^63 + 34\<close> on it is the mathematical \<open>width - 6 - centerW - 4\<close>.
\<close>

theorem peekW_truncating:
  "sint (peekW_raw w) =
     (let d = sint (usable w - centerW w - 2 * carouselGap)
      in if 0 \<le> d then d div 2 else - ((- d) div 2))
   \<and> sint (peekW w) = max (sint minPeekW) (min ((sint (centerW w) + 2) div 2) (sint (peekW_raw w)))
   \<and> sint minPeekW = 8
   \<and> (- (2 ^ 63) + 34 \<le> sint w \<longrightarrow>
        sint (usable w - centerW w - 2 * carouselGap) = sint w - 6 - sint (centerW w) - 4)"
proof -
  have "sint (peekW_raw w) = sint (usable w - centerW w - 2 * carouselGap) sdiv 2"
    by (simp add: peekW_raw_def sint_quo_2)
  then show ?thesis
    by (simp add: sdiv_2_eq Let_def sint_peekW sint_maxPeek dividend_exact minPeekW_def)
qed

theorem peekW_truncating_witness:
  "- (2 ^ 63) + 34 \<le> sint (1 :: go_int)
   \<and> sint (usable 1 - centerW 1 - 2 * carouselGap) = - 33
   \<and> sint (peekW_raw 1) = - 16
   \<and> sint (peekW 1) = 8"
  using peekW_truncating [of 1]
  by (simp add: centerW_def usable_def Let_def maxCenterW_def minPeekW_def carouselGap_def
        word_sless_alt)

text \<open>
  The rounding is invisible after the clamps: the two quotients differ only for a
  negative dividend, and then both are below \<open>minPeekW\<close>.
\<close>

lemma peekW_floor_agrees:
  "sint (peekW w) =
     max 8 (min ((sint (centerW w) + 2) div 2)
                (sint (usable w - centerW w - 2 * carouselGap) div 2))"
proof -
  have "sint (peekW_raw w) = sint (usable w - centerW w - 2 * carouselGap) sdiv 2"
    by (simp add: peekW_raw_def sint_quo_2)
  then show ?thesis
    using centerW_range [of w]
    by (simp add: sdiv_2_eq sint_peekW sint_maxPeek max_def min_def split: if_splits) linarith+
qed

section \<open>The cursor state machine\<close>

lemma Update_moves:
  assumes "items m \<noteq> []"
  shows "msg = ''left'' \<or> msg = ''h'' \<Longrightarrow>
           Update m msg = Inr (if 0 < cursor m then m\<lparr>cursor := cursor m - 1\<rparr> else m, None)"
    and "msg = ''right'' \<or> msg = ''l'' \<Longrightarrow>
           Update m msg = Inr (if cursor m < int (length (items m)) - 1
                               then m\<lparr>cursor := cursor m + 1\<rparr> else m, None)"
  using assms by (auto simp: Update_def Let_def)

lemma Update_select:
  assumes "items m \<noteq> []"
    and "msg = ''down'' \<or> msg = ''j'' \<or> msg = ''enter'' \<or> msg = '' ''"
  shows "Update m msg =
           (case slice_index (items m) (cursor m) of
              Inl e \<Rightarrow> Inl e
            | Inr item \<Rightarrow> Inr (m, Some (\<lambda>_. \<lparr>Index = cursor m, Item = item\<rparr>)))"
  using assms by (auto simp: Update_def Let_def)

lemma Update_other:
  assumes "msg \<noteq> ''left''" "msg \<noteq> ''h''" "msg \<noteq> ''right''" "msg \<noteq> ''l''"
    "msg \<noteq> ''down''" "msg \<noteq> ''j''" "msg \<noteq> ''enter''" "msg \<noteq> '' ''"
  shows "Update m msg = Inr (m, None)"
  using assms by (simp add: Update_def Let_def)

text \<open>One call of \<open>Update\<close> on a cursor in range: no panic, same items, cursor in range.\<close>

lemma Update_step:
  assumes "0 \<le> cursor m" "cursor m < int (length (items m))"
  shows "\<exists>m' c. Update m msg = Inr (m', c) \<and> items m' = items m
           \<and> 0 \<le> cursor m' \<and> cursor m' < int (length (items m'))"
proof -
  from assms have ne: "items m \<noteq> []" by auto
  consider (left) "msg = ''left'' \<or> msg = ''h''"
    | (right) "msg = ''right'' \<or> msg = ''l''"
    | (select) "msg = ''down'' \<or> msg = ''j'' \<or> msg = ''enter'' \<or> msg = '' ''"
    | (other) "msg \<noteq> ''left''" "msg \<noteq> ''h''" "msg \<noteq> ''right''" "msg \<noteq> ''l''"
        "msg \<noteq> ''down''" "msg \<noteq> ''j''" "msg \<noteq> ''enter''" "msg \<noteq> '' ''"
    by blast
  then show ?thesis
  proof cases
    case left
    from Update_moves(1) [OF ne left] assms ne show ?thesis by auto
  next
    case right
    from Update_moves(2) [OF ne right] assms ne show ?thesis by auto
  next
    case select
    from Update_select [OF ne select] assms ne show ?thesis by (auto simp: slice_index_def)
  next
    case other
    from Update_other [OF other] assms ne show ?thesis by auto
  qed
qed

text \<open>
  The constructor and the two mutators of the cursor and the items give a cursor in
  range whenever the items are non-empty.
\<close>

lemma New_cursor_in_range:
  "items (New cfg) \<noteq> [] \<Longrightarrow>
     0 \<le> cursor (New cfg) \<and> cursor (New cfg) < int (length (items (New cfg)))"
  by (simp add: New_def)

lemma SetCursor_cursor_in_range:
  "items m \<noteq> [] \<Longrightarrow>
     items (SetCursor m idx) = items m
     \<and> 0 \<le> cursor (SetCursor m idx) \<and> cursor (SetCursor m idx) < int (length (items m))"
  by (simp add: SetCursor_def Let_def)

lemma SetItems_cursor_in_range:
  "0 \<le> cursor m \<Longrightarrow> slice_of its \<noteq> [] \<Longrightarrow>
     0 \<le> cursor (SetItems m its)
     \<and> cursor (SetItems m its) < int (length (items (SetItems m its)))"
  by (simp add: SetItems_def Let_def)

text \<open>
  Claim C2. For every non-empty item sequence, starting from any state with
  \<open>0 \<le> cursor < len(items)\<close>, after any sequence of keys fed to \<open>Update\<close> (the
  move-left keys \<open>left\<close>, \<open>h\<close> and the move-right keys \<open>right\<close>, \<open>l\<close> among them)
  the run has not panicked, the items are the same and \<open>0 \<le> cursor < len(items)\<close>
  holds again.
\<close>

theorem cursor_invariant:
  assumes "items m \<noteq> []" "0 \<le> cursor m" "cursor m < int (length (items m))"
  shows "\<exists>m'. run m ks = Inr m' \<and> items m' = items m
           \<and> 0 \<le> cursor m' \<and> cursor m' < int (length (items m'))"
  using assms
proof (induction ks arbitrary: m)
  case Nil
  then show ?case by simp
next
  case (Cons k ks)
  from Update_step [OF Cons.prems(2,3), of k]
  obtain m1 c where u: "Update m k = Inr (m1, c)" and i: "items m1 = items m"
    and r: "0 \<le> cursor m1" "cursor m1 < int (length (items m1))"
    by blast
  from Cons.IH [of m1] i r Cons.prems(1)
  obtain m' where "run m1 ks = Inr m'" "items m' = items m1"
    "0 \<le> cursor m'" "cursor m' < int (length (items m'))"
    by auto
  with u i show ?case by simp
qed

theorem cursor_invariant_witness:
  "items three_items \<noteq> [] \<and> 0 \<le> cursor three_items
   \<and> cursor three_items < int (length (items three_items))
   \<and> (\<exists>m'. run three_items [''right'', ''l'', ''right'', ''left'', ''h'', ''h''] = Inr m'
         \<and> items m' = items three_items
         \<and> 0 \<le> cursor m' \<and> cursor m' < int (length (items m')))"
  using cursor_invariant [of three_items "[''right'', ''l'', ''right'', ''left'', ''h'', ''h'']"]
  by (simp add: example_defs)

text \<open>
  Claim C3. For every non-empty item sequence and every cursor position \<open>c\<close> in it,
  \<open>Update\<close> with a select key (\<open>enter\<close>, \<open>down\<close>, \<open>j\<close>, space) returns the model
  unchanged, cursor included, and a command that produces the selection message
  carrying exactly \<open>(c, items[c])\<close>.
\<close>

theorem select_emits:
  assumes "0 \<le> cursor m" "cursor m < int (length (items m))"
    and "msg = ''enter'' \<or> msg = ''down'' \<or> msg = ''j'' \<or> msg = '' ''"
  shows "Update m msg =
           Inr (m, Some (\<lambda>_. \<lparr>Index = cursor m, Item = items m ! nat (cursor m)\<rparr>))"
proof -
  from assms(1,2) have ne: "items m \<noteq> []" by auto
  from assms(3) have "msg = ''down'' \<or> msg = ''j'' \<or> msg = ''enter'' \<or> msg = '' ''"
    by blast
  from Update_select [OF ne this] assms(1,2) show ?thesis
    by (simp add: slice_index_def)
qed

theorem select_emits_witness:
  "0 \<le> cursor three_items \<and> cursor three_items < int (length (items three_items))
   \<and> Update three_items ''enter'' =
       Inr (three_items, Some (\<lambda>_. \<lparr>Index = 0, Item = ''a''\<rparr>))
   \<and> Update three_items ''down'' =
       Inr (three_items, Some (\<lambda>_. \<lparr>Index = 0, Item = ''a''\<rparr>))
   \<and> Update (SetCursor three_items 1) ''j'' =
       Inr (SetCursor three_items 1, Some (\<lambda>_. \<lparr>Index = 1, Item = ''b''\<rparr>))
   \<and> Update (SetCursor three_items 2) '' '' =
       Inr (SetCursor three_items 2, Some (\<lambda>_. \<lparr>Index = 2, Item = ''c''\<rparr>))"
  using select_emits [of three_items "''enter''"] select_emits [of three_items "''down''"]
    select_emits [of "SetCursor three_items 1" "''j''"]
    select_emits [of "SetCursor three_items 2" "'' ''"]
  by (simp add: example_defs SetCursor_def)

text \<open>
  Claim C4. For every non-empty item sequence, \<open>Update\<close> with a move-left key at
  cursor 0 returns the model unchanged and no command, \<open>Update\<close> with a move-right
  key at cursor \<open>len(items) - 1\<close> does the same, and so does \<open>Update\<close> with any key
  outside the three recognised classes.
\<close>

theorem boundary_moves_noop:
  assumes "items m \<noteq> []"
  shows "(cursor m = 0 \<and> (msg = ''left'' \<or> msg = ''h'') \<longrightarrow> Update m msg = Inr (m, None))
       \<and> (cursor m = int (length (items m)) - 1 \<and> (msg = ''right'' \<or> msg = ''l'')
            \<longrightarrow> Update m msg = Inr (m, None))
       \<and> (msg \<notin> {''left'', ''h'', ''right'', ''l'', ''down'', ''j'', ''enter'', '' ''}
            \<longrightarrow> Update m msg = Inr (m, None))"
proof (intro conjI impI)
  assume "cursor m = 0 \<and> (msg = ''left'' \<or> msg = ''h'')"
  with Update_moves(1) [OF assms, of msg] show "Update m msg = Inr (m, None)"
    by simp
next
  assume "cursor m = int (length (items m)) - 1 \<and> (msg = ''right'' \<or> msg = ''l'')"
  with Update_moves(2) [OF assms, of msg] show "Update m msg = Inr (m, None)"
    by simp
next
  assume "msg \<notin> {''left'', ''h'', ''right'', ''l'', ''down'', ''j'', ''enter'', '' ''}"
  then show "Update m msg = Inr (m, None)"
    by (intro Update_other) simp_all
qed

theorem boundary_moves_noop_witness:
  "items three_items \<noteq> [] \<and> cursor three_items = 0
   \<and> Update three_items ''left'' = Inr (three_items, None)
   \<and> Update three_items ''h'' = Inr (three_items, None)
   \<and> items (SetCursor three_items 2) \<noteq> []
   \<and> cursor (SetCursor three_items 2) = int (length (items (SetCursor three_items 2))) - 1
   \<and> Update (SetCursor three_items 2) ''right'' = Inr (SetCursor three_items 2, None)
   \<and> ''esc'' \<notin> {''left'', ''h'', ''right'', ''l'', ''down'', ''j'', ''enter'', '' ''}
   \<and> Update three_items ''esc'' = Inr (three_items, None)"
  using boundary_moves_noop [of three_items "''left''"]
    boundary_moves_noop [of three_items "''h''"]
    boundary_moves_noop [of "SetCursor three_items 2" "''right''"]
    boundary_moves_noop [of three_items "''esc''"]
  by (simp add: example_defs SetCursor_def)

text \<open>
  Claim C10. On a model whose item sequence is empty, \<open>Update\<close> returns the model
  unchanged and the nil command for every key message, the select keys included:
  the access \<open>items[cursor]\<close> of the select branch is not reached, so there is no
  panic.
\<close>

theorem Update_empty:
  "items m = [] \<Longrightarrow> Update m msg = Inr (m, None)"
  by (simp add: Update_def)

theorem Update_empty_witness:
  "items no_items = []
   \<and> Update no_items ''enter'' = Inr (no_items, None)
   \<and> Update no_items '' '' = Inr (no_items, None)"
  using Update_empty [of no_items "''enter''"] Update_empty [of no_items "'' ''"]
  by (simp add: example_defs)

text \<open>
  Claim C5. For every state and every replacement sequence, \<open>SetItems\<close> installs the
  new sequence; if it is non-empty and the cursor is \<open>\<ge>\<close> its length, the cursor
  becomes \<open>len(newItems) - 1\<close>; a cursor below the new length is left unchanged.
  Nothing else in the state changes.
\<close>

theorem SetItems_reclamps:
  "items (SetItems m its) = slice_of its
   \<and> (slice_of its \<noteq> [] \<and> int (length (slice_of its)) \<le> cursor m
        \<longrightarrow> cursor (SetItems m its) = int (length (slice_of its)) - 1)
   \<and> (cursor m < int (length (slice_of its)) \<longrightarrow> cursor (SetItems m its) = cursor m)
   \<and> SetItems m its = m\<lparr>items := slice_of its, cursor := cursor (SetItems m its)\<rparr>"
  by (simp add: SetItems_def Let_def)

theorem SetItems_reclamps_witness:
  "slice_of (Some [''x'', ''y'']) \<noteq> []
   \<and> int (length (slice_of (Some [''x'', ''y'']))) \<le> cursor (SetCursor three_items 2)
   \<and> cursor (SetItems (SetCursor three_items 2) (Some [''x'', ''y''])) = 1
   \<and> items (SetItems (SetCursor three_items 2) (Some [''x'', ''y''])) = [''x'', ''y'']
   \<and> cursor (SetCursor three_items 1) < int (length (slice_of (Some [''x'', ''y''])))
   \<and> cursor (SetItems (SetCursor three_items 1) (Some [''x'', ''y''])) = 1"
  using SetItems_reclamps [of "SetCursor three_items 2" "Some [''x'', ''y'']"]
    SetItems_reclamps [of "SetCursor three_items 1" "Some [''x'', ''y'']"]
  by (simp add: example_defs SetCursor_def)

section \<open>Rendering\<close>

text \<open>
  Claim C6. For every model whose item sequence is empty, whatever its width, its
  height, its delegate and the rendering capabilities, \<open>View\<close> returns the empty
  string: the result depends on none of the layout, the delegate or the card
  rendering.
\<close>

theorem View_empty:
  "items m = [] \<Longrightarrow> View L m = Inr []"
  by (simp add: View_def)

theorem View_empty_witness:
  "items no_items = [] \<and> View plain_Lib no_items = Inr []
   \<and> items (SetSize no_items 0 0) = [] \<and> View plain_Lib (SetSize no_items 0 0) = Inr []"
  using View_empty [of no_items plain_Lib] View_empty [of "SetSize no_items 0 0" plain_Lib]
  by (simp add: example_defs)

text \<open>With the cursor in range, the three cards of the row are rendered without a panic.\<close>

lemma renderCard_in_range:
  assumes "0 \<le> i" "i < int (length (items m))"
  shows "\<exists>s. renderCard L m i cW cH a = Inr s"
  using assms by (simp add: renderCard_def slice_index_def Let_def)

text \<open>
  Claim C8. For every non-empty item sequence and cursor in it, the footer of
  \<open>View\<close> is rendered from the navigation hint \<open>"\<rightarrow> Navigate"\<close> when the cursor is 0,
  \<open>"\<leftarrow> Navigate"\<close> when it is not 0 and is \<open>len(items) - 1\<close>, and \<open>"\<leftarrow>\<rightarrow> Navigate"\<close>
  otherwise. The case 0 is tested first, so a single item, where index 0 is also
  the last index, gets \<open>"\<rightarrow> Navigate"\<close>.
\<close>

theorem navigation_hint:
  assumes "0 \<le> cursor m" "cursor m < int (length (items m))"
  shows "(\<exists>row. View L m =
            Inr (header L m @ row @ [newline, newline]
                 @ renderFooter L m (navHint (cursor m) (int (length (items m))))))
       \<and> navHint (cursor m) (int (length (items m))) =
           (if cursor m = 0 then arrow_right @ '' Navigate''
            else if cursor m = int (length (items m)) - 1 then arrow_left @ '' Navigate''
            else arrow_left @ arrow_right @ '' Navigate'')
       \<and> (length (items m) = 1 \<longrightarrow>
            navHint (cursor m) (int (length (items m))) = arrow_right @ '' Navigate'')"
proof -
  let ?n = "int (length (items m))"
  from assms have ne: "?n \<noteq> 0" by auto
  obtain c where c: "renderCard L m (cursor m) (centerW (width m)) (cardContentH (width m)) True = Inr c"
    using renderCard_in_range [OF assms] by blast
  have l: "0 < cursor m \<Longrightarrow>
      \<exists>s. renderCard L m (cursor m - 1) (centerW (width m)) (cardContentH (width m)) False = Inr s"
    using assms by (intro renderCard_in_range) simp_all
  have r: "cursor m < ?n - 1 \<Longrightarrow>
      \<exists>s. renderCard L m (cursor m + 1) (centerW (width m)) (cardContentH (width m)) False = Inr s"
    using assms by (intro renderCard_in_range) simp_all
  have "\<exists>row. View L m =
            Inr (header L m @ row @ [newline, newline] @ renderFooter L m (navHint (cursor m) ?n))"
    using ne c l r by (auto simp: View_def Let_def)
  moreover have "length (items m) = 1 \<longrightarrow> cursor m = 0"
    using assms by auto
  ultimately show ?thesis
    by (simp add: navHint_def)
qed

theorem navigation_hint_witness:
  "0 \<le> cursor one_item \<and> cursor one_item < int (length (items one_item))
   \<and> length (items one_item) = 1
   \<and> navHint (cursor one_item) (int (length (items one_item))) = arrow_right @ '' Navigate''
   \<and> navHint (cursor three_items) 3 = arrow_right @ '' Navigate''
   \<and> navHint (cursor (SetCursor three_items 1)) 3 = arrow_left @ arrow_right @ '' Navigate''
   \<and> navHint (cursor (SetCursor three_items 2)) 3 = arrow_left @ '' Navigate''"
  using navigation_hint [of one_item plain_Lib] navigation_hint [of three_items plain_Lib]
    navigation_hint [of "SetCursor three_items 1" plain_Lib]
    navigation_hint [of "SetCursor three_items 2" plain_Lib]
  by (simp add: example_defs SetCursor_def)

subsection \<open>The right-edge clip\<close>

text \<open>
  What \<open>peekRight\<close> itself decides for one line: a line no wider than \<open>n\<close> is kept
  as it is, and a wider line is handed to \<open>TruncateLeft\<close> with the excess
  \<open>w - n\<close> as the number of columns to remove. The width of what
  \<open>TruncateLeft\<close> returns is the library's.
\<close>

lemma peekRight_line_narrow:
  "\<not> n <s StringWidth L line \<Longrightarrow> peekRight_line L n line = line"
  by (simp add: peekRight_line_def)

lemma peekRight_line_wide:
  "n <s StringWidth L line \<Longrightarrow>
     peekRight_line L n line = TruncateLeft L line (StringWidth L line - n) []"
  by (simp add: peekRight_line_def)

text \<open>Splitting at newlines and joining with newlines gives the block back.\<close>

lemma strings_Split_nonempty: "strings_Split s c \<noteq> []"
  by (induction s) (auto split: list.splits)

lemma strings_Join_Cons:
  "strings_Join ((x # l) # ls) sep = x # strings_Join (l # ls) sep"
  by (cases ls) simp_all

lemma strings_Join_Split: "strings_Join (strings_Split s c) [c] = s"
proof (induction s)
  case Nil
  then show ?case by simp
next
  case (Cons x xs)
  obtain l ls where sp: "strings_Split xs c = l # ls"
    using strings_Split_nonempty [of xs c] by (cases "strings_Split xs c") auto
  show ?case
  proof (cases "x = c")
    case True
    with Cons sp show ?thesis by simp
  next
    case False
    with Cons sp show ?thesis by (simp add: strings_Join_Cons)
  qed
qed

text \<open>A block whose lines are all no wider than \<open>n\<close> is returned byte for byte.\<close>

lemma peekRight_all_narrow:
  assumes "\<forall>line \<in> set (strings_Split s newline). \<not> n <s StringWidth L line"
  shows "peekRight L s n = s"
proof -
  have "map (peekRight_line L n) (strings_Split s newline) = strings_Split s newline"
    using assms by (intro map_idI) (simp add: peekRight_line_def)
  then show ?thesis
    by (simp add: peekRight_def strings_Join_Split)
qed

end
